theory Spec2Isabelle
  imports Complex_Main
begin

section \<open>Born series notebook: Monte Carlo estimate of the first Born term\<close>

text \<open>
  The notebooks are Python with numpy. Python's unbounded integers are modelled by \<open>int\<close>
  and every exception the modelled code can raise is a value of \<open>py_error\<close>. The values
  the code computes in floating point are modelled by the real and complex numbers they
  approximate. Where a comparison of a float64 result with a threshold decides what the
  code does, its rounding is modelled by \<open>fl64\<close>: in \<open>V1\<close>, and in \<open>fborn1_f64\<close>, which
  is \<open>fborn1\<close> with the rounding of its assertion.
\<close>

datatype py_error =
    AssertionError
  | ZeroDivisionError
  | ValueError
  | NameError string

text \<open>A wavevector or a sample point: a numpy array of three real coordinates.\<close>

type_synonym vec3 = "real \<times> real \<times> real"

fun dot3 :: "vec3 \<Rightarrow> vec3 \<Rightarrow> real" where
  "dot3 (x1, y1, z1) (x2, y2, z2) = x1 * x2 + y1 * y2 + z1 * z2"

fun sub3 :: "vec3 \<Rightarrow> vec3 \<Rightarrow> vec3" where
  "sub3 (x1, y1, z1) (x2, y2, z2) = (x1 - x2, y1 - y2, z1 - z2)"


text \<open>
  The state of numpy's global random generator is the sequence of numbers it is still going
  to return, each drawn from the half-open interval from 0 to 1. \<open>np.random.random(3)\<close>
  takes the next three of them.
\<close>

type_synonym rng = "nat \<Rightarrow> real"

definition random3 :: "rng \<Rightarrow> vec3 \<times> rng" where
  "random3 g = ((g 0, g 1, g 2), (\<lambda>n. g (n + 3)))"


text \<open>\<open>r1 = 2 * L * np.random.random(3) - L\<close>, coordinate by coordinate.\<close>

fun sample_point :: "real \<Rightarrow> vec3 \<Rightarrow> vec3" where
  "sample_point L (u, v, w) = (2 * L * u - L, 2 * L * v - L, 2 * L * w - L)"

text \<open>
  The body of \<open>for n in range(N)\<close> in \<open>fborn1\<close>, run \<open>n\<close> more times on the
  accumulator \<open>f1\<close> and the generator state.
\<close>

fun fborn1_loop ::
  "(vec3 \<Rightarrow> complex) \<Rightarrow> vec3 \<Rightarrow> vec3 \<Rightarrow> real \<Rightarrow> nat \<Rightarrow> complex \<Rightarrow> rng \<Rightarrow> complex \<times> rng" where
  "fborn1_loop Vfun ki kf L 0 f1 g = (f1, g)"
| "fborn1_loop Vfun ki kf L (Suc n) f1 g =
     (let (u, g') = random3 g;
          r1 = sample_point L u;
          dkr = dot3 (sub3 ki kf) r1
      in fborn1_loop Vfun ki kf L n
           (f1 + (- Vfun r1) * exp (\<i> * complex_of_real dkr) / complex_of_real (2 * pi)) g')"

text \<open>
  \<open>fborn1(Vfun, ki, kf, L, N)\<close>: the assertion, the volume, the loop over \<open>range(N)\<close>
  (empty when \<open>N\<close> is not positive) and the final \<open>(1/N) * volume * f1\<close>, whose
  division raises for \<open>N = 0\<close>. The result comes with the generator state left behind.
\<close>

definition fborn1 ::
  "(vec3 \<Rightarrow> complex) \<Rightarrow> vec3 \<Rightarrow> vec3 \<Rightarrow> real \<Rightarrow> int \<Rightarrow> rng \<Rightarrow> (py_error + complex) \<times> rng" where
  "fborn1 Vfun ki kf L N g =
     (if \<not> (\<bar>dot3 ki ki - dot3 kf kf\<bar> < 1 / 100000) then (Inl AssertionError, g)
      else
        let volume = (2 * L) ^ 3;
            (f1, g') = fborn1_loop Vfun ki kf L (nat N) 0 g
        in if N = 0 then (Inl ZeroDivisionError, g')
           else (Inr (complex_of_real (1 / real_of_int N) * complex_of_real volume * f1), g'))"

text \<open>
  Rounding to float64: the nearest number with 53 significant binary digits, a tie going to
  the one whose last digit is even. The exponent is not bounded here. A rounded result of
  magnitude \<open>2^1024\<close> or more stands for an overflow. The coarser spacing of the numbers
  below \<open>2^-1022\<close> is not modelled: these are far below the thresholds \<open>1e-5\<close> and
  \<open>1.0\<close> of the comparisons made here, and below half a unit in the last place of any
  sum that comes near a threshold.
\<close>

definition round_even :: "real \<Rightarrow> int" where
  "round_even y =
     (let f = \<lfloor>y\<rfloor>; d = y - of_int f
      in if d < 1 / 2 then f else if 1 / 2 < d then f + 1 else if even f then f else f + 1)"

definition fl64 :: "real \<Rightarrow> real" where
  "fl64 x =
     (if x = 0 then 0
      else let p = 2 powr of_int (\<lfloor>log 2 \<bar>x\<bar>\<rfloor> - 52)
           in of_int (round_even (x / p)) * p)"

definition finite64 :: "real \<Rightarrow> bool" where
  "finite64 v = (\<bar>v\<bar> < 2 ^ 1024)"

text \<open>
  \<open>np.dot\<close> of two float64 arrays of three entries: every product and every sum is
  rounded, the sum running from the first entry to the last.
\<close>

fun fl64_dot3 :: "vec3 \<Rightarrow> vec3 \<Rightarrow> real" where
  "fl64_dot3 (x1, y1, z1) (x2, y2, z2) =
     fl64 (fl64 (fl64 (x1 * x2) + fl64 (y1 * y2)) + fl64 (z1 * z2))"

text \<open>
  The condition of the assertion, \<open>abs(np.dot(ki,ki) - np.dot(kf,kf)) < 1e-5\<close>, as float64
  evaluates it. When a squared magnitude overflows, the difference is infinite or not a
  number and the comparison is false.
\<close>

definition guard_f64 :: "vec3 \<Rightarrow> vec3 \<Rightarrow> bool" where
  "guard_f64 ki kf =
     (let a = fl64_dot3 ki ki; b = fl64_dot3 kf kf
      in finite64 a \<and> finite64 b \<and> \<bar>fl64 (a - b)\<bar> < fl64 (1 / 100000))"

text \<open>
  \<open>fborn1\<close> with the assertion evaluated in float64; the statements after the assertion
  are those of \<open>fborn1\<close>.
\<close>

definition fborn1_f64 ::
  "(vec3 \<Rightarrow> complex) \<Rightarrow> vec3 \<Rightarrow> vec3 \<Rightarrow> real \<Rightarrow> int \<Rightarrow> rng \<Rightarrow> (py_error + complex) \<times> rng" where
  "fborn1_f64 Vfun ki kf L N g =
     (if \<not> guard_f64 ki kf then (Inl AssertionError, g)
      else
        let volume = (2 * L) ^ 3;
            (f1, g') = fborn1_loop Vfun ki kf L (nat N) 0 g
        in if N = 0 then (Inl ZeroDivisionError, g')
           else (Inr (complex_of_real (1 / real_of_int N) * complex_of_real volume * f1), g'))"

text \<open>\<open>fborn2\<close> as shipped: the body is a comment and \<open>return 0.0\<close>.\<close>

definition fborn2 :: "(vec3 \<Rightarrow> complex) \<Rightarrow> vec3 \<Rightarrow> vec3 \<Rightarrow> real \<Rightarrow> int \<Rightarrow> real" where
  "fborn2 Vfun ki kf L N = 0"

text \<open>
  \<open>V1(r) = 0.1 if np.absolute(np.dot(r, r)) < 1.0 else 0.0\<close>: the comparison is made on
  the float64 value of \<open>np.dot(r, r)\<close>. The literals \<open>0.1\<close> and \<open>0.0\<close> are written
  \<open>1 / 10\<close> and \<open>0\<close>.
\<close>

definition V1 :: "vec3 \<Rightarrow> real" where
  "V1 r = (if \<bar>fl64_dot3 r r\<bar> < 1 then 1 / 10 else 0)"





definition V1c :: "vec3 \<Rightarrow> complex" where
  "V1c r = complex_of_real (V1 r)"

section \<open>Entanglement notebook: vectors, matrices and the reduced density matrix\<close>

text \<open>
  A 1-D numpy array is the list of its entries and a 2-D array the list of its rows, all of
  the same length; \<open>shape0\<close> and \<open>shape1\<close> are \<open>rho.shape[0]\<close> and \<open>rho.shape[1]\<close>.
\<close>

type_synonym cvec = "complex list"

type_synonym cmat = "complex list list"

definition shape0 :: "cmat \<Rightarrow> nat" where
  "shape0 m = length m"

definition shape1 :: "cmat \<Rightarrow> nat" where
  "shape1 m = (case m of [] \<Rightarrow> 0 | r # _ \<Rightarrow> length r)"

text \<open>\<open>np.eye(n)\<close> for a non-negative \<open>n\<close>; a negative dimension is a ValueError.\<close>

definition eye :: "nat \<Rightarrow> cmat" where
  "eye n = map (\<lambda>i. map (\<lambda>j. if i = j then 1 else 0) [0..<n]) [0..<n]"

definition np_eye :: "int \<Rightarrow> py_error + cmat" where
  "np_eye n = (if n < 0 then Inl ValueError else Inr (eye (nat n)))"

text \<open>Python's \<open>a // b\<close> on integers: floor division, ZeroDivisionError for \<open>b = 0\<close>.\<close>

definition floordiv :: "int \<Rightarrow> int \<Rightarrow> py_error + int" where
  "floordiv a b = (if b = 0 then Inl ZeroDivisionError else Inr (a div b))"

text \<open>
  \<open>reduced_density_matrix_A(rho, dimA)\<close> as shipped: the assertion that \<open>rho\<close> is square,
  \<open>dimB = rho.shape[0] // dimA\<close>, and \<open>return np.eye(dimA)\<close>; \<open>dimB\<close> is not used.
\<close>

definition reduced_density_matrix_A :: "cmat \<Rightarrow> int \<Rightarrow> py_error + cmat" where
  "reduced_density_matrix_A rho dimA =
     (if shape0 rho \<noteq> shape1 rho then Inl AssertionError
      else case floordiv (int (shape0 rho)) dimA of
             Inl e \<Rightarrow> Inl e
           | Inr dimB \<Rightarrow> np_eye dimA)"

text \<open>
  The numpy operations of the cell that checks the function on the singlet state:
  \<open>np.kron\<close> and \<open>-\<close> on 1-D arrays, a scalar times a 1-D array, \<open>.conj()\<close> and
  \<open>np.outer\<close>.
\<close>

definition kron_vec :: "cvec \<Rightarrow> cvec \<Rightarrow> cvec" where
  "kron_vec a b = concat (map (\<lambda>x. map (\<lambda>y. x * y) b) a)"

definition sub_vec :: "cvec \<Rightarrow> cvec \<Rightarrow> cvec" where
  "sub_vec a b = map2 (\<lambda>x y. x - y) a b"

definition scale_vec :: "complex \<Rightarrow> cvec \<Rightarrow> cvec" where
  "scale_vec c v = map (\<lambda>x. c * x) v"

definition conj_vec :: "cvec \<Rightarrow> cvec" where
  "conj_vec v = map cnj v"

definition outer :: "cvec \<Rightarrow> cvec \<Rightarrow> cmat" where
  "outer u v = map (\<lambda>x. map (\<lambda>y. x * y) v) u"

text \<open>
  The cell's inputs: \<open>up\<close>, \<open>down\<close>,
  \<open>psi = 1/np.sqrt(2) * (np.kron(up, down) - np.kron(down, up))\<close> and
  \<open>rho = np.outer(psi, psi.conj())\<close>.
\<close>

definition up :: cvec where
  "up = [1, 0]"

definition down :: cvec where
  "down = [0, 1]"

definition singlet_psi :: cvec where
  "singlet_psi = scale_vec (complex_of_real (1 / sqrt 2)) (sub_vec (kron_vec up down) (kron_vec down up))"

definition singlet_rho :: cmat where
  "singlet_rho = outer singlet_psi (conj_vec singlet_psi)"

text \<open>
  The reduced density matrix in the words of the notebook: the sum over the basis vectors
  \<open>|b>\<close> of the space of B of \<open>(I_A (x) <b|) rho (I_A (x) |b>)\<close>, with the tensor product
  of matrices, the matrix product, the basis bra as a one-row matrix and the basis ket as a
  one-column matrix.
\<close>

definition kron_mat :: "cmat \<Rightarrow> cmat \<Rightarrow> cmat" where
  "kron_mat A B = concat (map (\<lambda>ra. map (\<lambda>rb. kron_vec ra rb) B) A)"

definition dot_vec :: "cvec \<Rightarrow> cvec \<Rightarrow> complex" where
  "dot_vec u v = sum_list (map2 (\<lambda>x y. x * y) u v)"

definition mat_mul :: "cmat \<Rightarrow> cmat \<Rightarrow> cmat" where
  "mat_mul A B = map (\<lambda>r. map (\<lambda>c. dot_vec r c) (transpose B)) A"

definition mat_add :: "cmat \<Rightarrow> cmat \<Rightarrow> cmat" where
  "mat_add A B = map2 (\<lambda>r s. map2 (\<lambda>x y. x + y) r s) A B"

definition zero_mat :: "nat \<Rightarrow> cmat" where
  "zero_mat n = replicate n (replicate n 0)"

definition basis_bra :: "nat \<Rightarrow> nat \<Rightarrow> cmat" where
  "basis_bra dimB b = [map (\<lambda>i. if i = b then 1 else 0) [0..<dimB]]"

definition basis_ket :: "nat \<Rightarrow> nat \<Rightarrow> cmat" where
  "basis_ket dimB b = map (\<lambda>i. [if i = b then 1 else 0]) [0..<dimB]"

definition partial_trace_B :: "cmat \<Rightarrow> nat \<Rightarrow> nat \<Rightarrow> cmat" where
  "partial_trace_B rho dimA dimB =
     foldr mat_add
       (map (\<lambda>b. mat_mul (mat_mul (kron_mat (eye dimA) (basis_bra dimB b)) rho)
                            (kron_mat (eye dimA) (basis_ket dimB b)))
            [0..<dimB])
       (zero_mat dimA)"

text \<open>The properties of a density matrix the notebook asks to check.\<close>

definition conj_transpose :: "cmat \<Rightarrow> cmat" where
  "conj_transpose m = map (map cnj) (transpose m)"

definition hermitian :: "cmat \<Rightarrow> bool" where
  "hermitian m = (conj_transpose m = m)"

definition trace :: "cmat \<Rightarrow> complex" where
  "trace m = sum_list (map (\<lambda>i. m ! i ! i) [0..<length m])"

definition mat_vec :: "cmat \<Rightarrow> cvec \<Rightarrow> cvec" where
  "mat_vec m v = map (\<lambda>r. dot_vec r v) m"

section \<open>Entanglement notebook: the code cells and the kernel they share\<close>

text \<open>
  The arrays of the example cells have at most two dimensions: a 0-D result of \<open>np.dot\<close>, a
  1-D array or a 2-D array (with rows of one length; a 2-D array without rows is taken to
  have no columns either).
\<close>

datatype ndarray = Scalar complex | Vec cvec | Mat cmat

fun ndim :: "ndarray \<Rightarrow> nat" where
  "ndim (Scalar c) = 0"
| "ndim (Vec v) = 1"
| "ndim (Mat m) = 2"

fun shape :: "ndarray \<Rightarrow> nat list" where
  "shape (Scalar c) = []"
| "shape (Vec v) = [length v]"
| "shape (Mat m) = [shape0 m, shape1 m]"

text \<open>
  numpy aligns arrays of different dimension by prepending axes of length 1 to the smaller
  one; the result keeps the larger number of dimensions.
\<close>

fun atleast_2d :: "ndarray \<Rightarrow> cmat" where
  "atleast_2d (Scalar c) = [[c]]"
| "atleast_2d (Vec v) = [v]"
| "atleast_2d (Mat m) = m"

definition of_2d :: "nat \<Rightarrow> cmat \<Rightarrow> ndarray" where
  "of_2d d m =
     (if d = 0 then (case m of [[c]] \<Rightarrow> Scalar c | _ \<Rightarrow> Mat m)
      else if d = 1 then (case m of [v] \<Rightarrow> Vec v | _ \<Rightarrow> Mat m)
      else Mat m)"

text \<open>\<open>np.kron(x, y)\<close>.\<close>

definition np_kron :: "ndarray \<Rightarrow> ndarray \<Rightarrow> ndarray" where
  "np_kron x y = of_2d (max (ndim x) (ndim y)) (kron_mat (atleast_2d x) (atleast_2d y))"

text \<open>\<open>x * y\<close> with numpy's broadcasting: on each axis the lengths agree or one of them is 1.\<close>

definition np_mul :: "ndarray \<Rightarrow> ndarray \<Rightarrow> py_error + ndarray" where
  "np_mul x y =
     (let A = atleast_2d x; B = atleast_2d y;
          r1 = shape0 A; c1 = shape1 A; r2 = shape0 B; c2 = shape1 B
      in if \<not> ((r1 = r2 \<or> r1 = 1 \<or> r2 = 1) \<and> (c1 = c2 \<or> c1 = 1 \<or> c2 = 1)) then Inl ValueError
         else Inr (of_2d (max (ndim x) (ndim y))
           (map (\<lambda>i. map (\<lambda>j. A ! (if r1 = 1 then 0 else i) ! (if c1 = 1 then 0 else j)
                              * B ! (if r2 = 1 then 0 else i) ! (if c2 = 1 then 0 else j))
                         [0..<(if c1 = 1 then c2 else c1)])
                [0..<(if r1 = 1 then r2 else r1)])))"

text \<open>
  \<open>np.dot(x, y)\<close>: a product with a 0-D array is a scaling, two 1-D arrays give their inner
  product (without conjugation), and the other cases are matrix products. Shapes that do
  not fit are a ValueError.
\<close>

definition vec_mat :: "cvec \<Rightarrow> cmat \<Rightarrow> cvec" where
  "vec_mat v m = map (\<lambda>c. dot_vec v c) (transpose m)"

fun scale :: "complex \<Rightarrow> ndarray \<Rightarrow> ndarray" where
  "scale c (Scalar d) = Scalar (c * d)"
| "scale c (Vec v) = Vec (scale_vec c v)"
| "scale c (Mat m) = Mat (map (scale_vec c) m)"

fun np_dot :: "ndarray \<Rightarrow> ndarray \<Rightarrow> py_error + ndarray" where
  "np_dot (Scalar c) y = Inr (scale c y)"
| "np_dot x (Scalar c) = Inr (scale c x)"
| "np_dot (Vec u) (Vec v) =
     (if length u = length v then Inr (Scalar (dot_vec u v)) else Inl ValueError)"
| "np_dot (Mat m) (Vec v) =
     (if shape1 m = length v then Inr (Vec (mat_vec m v)) else Inl ValueError)"
| "np_dot (Vec v) (Mat m) =
     (if length v = shape0 m then Inr (Vec (vec_mat v m)) else Inl ValueError)"
| "np_dot (Mat a) (Mat b) =
     (if shape1 a = shape0 b then Inr (Mat (mat_mul a b)) else Inl ValueError)"

text \<open>\<open>x.conj()\<close> and \<open>x.T\<close>.\<close>

fun np_conj :: "ndarray \<Rightarrow> ndarray" where
  "np_conj (Scalar c) = Scalar (cnj c)"
| "np_conj (Vec v) = Vec (conj_vec v)"
| "np_conj (Mat m) = Mat (map conj_vec m)"

fun np_T :: "ndarray \<Rightarrow> ndarray" where
  "np_T (Scalar c) = Scalar c"
| "np_T (Vec v) = Vec v"
| "np_T (Mat m) = Mat (transpose m)"

text \<open>
  The kernel's global namespace as far as the example cells use it: whether
  \<open>import numpy as np\<close> has run, and the arrays bound to variable names. Running a cell
  gives the exception that stopped it, if any, the lines it printed, and the kernel it
  leaves behind; assignments made before an exception stay.
\<close>

record kernel =
  np_imported :: bool
  vars :: "string \<rightharpoonup> ndarray"

datatype out_item = OStr string | OArr ndarray | OShape "nat list"

record run =
  raised :: "py_error option"
  printed :: "out_item list list"
  kernel_after :: kernel

type_synonym expr = "kernel \<Rightarrow> py_error + ndarray"

type_synonym stmt = "kernel \<Rightarrow> run"

definition fresh_kernel :: kernel where
  "fresh_kernel = \<lparr>np_imported = False, vars = Map.empty\<rparr>"

text \<open>
  Expressions. A name that is not bound raises NameError; a call \<open>np.f(e1, e2)\<close> looks up
  \<open>np\<close> first and then evaluates its arguments from left to right.
\<close>

definition var :: "string \<Rightarrow> expr" where
  "var x k = (case vars k x of None \<Rightarrow> Inl (NameError x) | Some v \<Rightarrow> Inr v)"

definition np_array :: "ndarray \<Rightarrow> expr" where
  "np_array v k = (if np_imported k then Inr v else Inl (NameError ''np''))"

definition np_call2 :: "(ndarray \<Rightarrow> ndarray \<Rightarrow> py_error + ndarray) \<Rightarrow> expr \<Rightarrow> expr \<Rightarrow> expr" where
  "np_call2 f e1 e2 k =
     (if \<not> np_imported k then Inl (NameError ''np'')
      else case e1 k of Inl e \<Rightarrow> Inl e
           | Inr v1 \<Rightarrow> (case e2 k of Inl e \<Rightarrow> Inl e | Inr v2 \<Rightarrow> f v1 v2))"

definition kron_e :: "expr \<Rightarrow> expr \<Rightarrow> expr" where
  "kron_e e1 e2 = np_call2 (\<lambda>x y. Inr (np_kron x y)) e1 e2"

definition dot_e :: "expr \<Rightarrow> expr \<Rightarrow> expr" where
  "dot_e e1 e2 = np_call2 np_dot e1 e2"

definition conj_e :: "expr \<Rightarrow> expr" where
  "conj_e e k = (case e k of Inl err \<Rightarrow> Inl err | Inr v \<Rightarrow> Inr (np_conj v))"

definition T_e :: "expr \<Rightarrow> expr" where
  "T_e e k = (case e k of Inl err \<Rightarrow> Inl err | Inr v \<Rightarrow> Inr (np_T v))"

definition mul_e :: "expr \<Rightarrow> expr \<Rightarrow> expr" where
  "mul_e e1 e2 k =
     (case e1 k of Inl e \<Rightarrow> Inl e
      | Inr v1 \<Rightarrow> (case e2 k of Inl e \<Rightarrow> Inl e | Inr v2 \<Rightarrow> np_mul v1 v2))"

text \<open>Statements: the import, an assignment, \<open>print\<close>, and running one after another.\<close>

definition import_numpy_as_np :: stmt where
  "import_numpy_as_np k = \<lparr>raised = None, printed = [], kernel_after = k\<lparr>np_imported := True\<rparr>\<rparr>"

definition assign :: "string \<Rightarrow> expr \<Rightarrow> stmt" where
  "assign x e k =
     (case e k of
        Inl err \<Rightarrow> \<lparr>raised = Some err, printed = [], kernel_after = k\<rparr>
      | Inr v \<Rightarrow> \<lparr>raised = None, printed = [], kernel_after = k\<lparr>vars := (vars k)(x \<mapsto> v)\<rparr>\<rparr>)"

definition print_array :: "expr \<Rightarrow> stmt" where
  "print_array e k =
     (case e k of
        Inl err \<Rightarrow> \<lparr>raised = Some err, printed = [], kernel_after = k\<rparr>
      | Inr v \<Rightarrow> \<lparr>raised = None, printed = [[OArr v]], kernel_after = k\<rparr>)"

definition print_labelled :: "string \<Rightarrow> expr \<Rightarrow> stmt" where
  "print_labelled s e k =
     (case e k of
        Inl err \<Rightarrow> \<lparr>raised = Some err, printed = [], kernel_after = k\<rparr>
      | Inr v \<Rightarrow> \<lparr>raised = None, printed = [[OStr s, OArr v]], kernel_after = k\<rparr>)"

definition print_shape :: "string \<Rightarrow> expr \<Rightarrow> stmt" where
  "print_shape s e k =
     (case e k of
        Inl err \<Rightarrow> \<lparr>raised = Some err, printed = [], kernel_after = k\<rparr>
      | Inr v \<Rightarrow> \<lparr>raised = None, printed = [[OStr s, OShape (shape v)]], kernel_after = k\<rparr>)"

definition seq_stmt :: "stmt \<Rightarrow> stmt \<Rightarrow> stmt" where
  "seq_stmt s1 s2 k =
     (let r1 = s1 k in
      case raised r1 of
        Some err \<Rightarrow> r1
      | None \<Rightarrow> (let r2 = s2 (kernel_after r1)
                 in r2\<lparr>printed := printed r1 @ printed r2\<rparr>))"

definition skip :: stmt where
  "skip k = \<lparr>raised = None, printed = [], kernel_after = k\<rparr>"

definition block :: "stmt list \<Rightarrow> stmt" where
  "block ss = foldr seq_stmt ss skip"

text \<open>Running a cell on the kernel another run left behind.\<close>

definition then_run :: "run \<Rightarrow> stmt \<Rightarrow> run" where
  "then_run r c = c (kernel_after r)"

text \<open>The first cell: the import and two real vectors.\<close>

definition cell_vectors :: stmt where
  "cell_vectors = block
     [import_numpy_as_np,
      assign ''a'' (np_array (Vec [2, - 1])),
      assign ''b'' (np_array (Vec [1, 2, 3])),
      assign ''psi'' (kron_e (var ''a'') (var ''b'')),
      print_array (var ''psi'')]"

text \<open>The second cell: \<open>foo = np.kron(b, a)\<close> and \<open>print(foo)\<close>.\<close>

definition cell_kron_ba :: stmt where
  "cell_kron_ba = block
     [assign ''foo'' (kron_e (var ''b'') (var ''a'')),
      print_array (var ''foo'')]"

text \<open>The third cell: complex vectors \<open>a\<close>, \<open>b\<close> and the operators \<open>OA\<close>, \<open>OB\<close>.\<close>

definition cell_operators :: stmt where
  "cell_operators = block
     [assign ''a'' (np_array (Vec [Complex 2 1, Complex 0 1])),
      assign ''b'' (np_array (Vec [Complex 0 (- 1), 2, Complex 1 (- 1)])),
      assign ''OA'' (np_array (Mat [[2, 1], [Complex 0 1, 1]])),
      assign ''OB'' (np_array (Mat [[1, Complex 0 2, 3], [0, 4, 0], [1, 0, Complex 0 1]])),
      assign ''O_total'' (kron_e (var ''OA'') (var ''OB'')),
      assign ''OAa'' (dot_e (var ''OA'') (var ''a'')),
      assign ''OBb'' (dot_e (var ''OB'') (var ''b'')),
      print_labelled ''LHS: '' (dot_e (var ''O_total'') (kron_e (var ''a'') (var ''b''))),
      print_labelled ''RHS: '' (kron_e (var ''OAa'') (var ''OBb''))]"

text \<open>
  The left-projection cell, which starts with the comment that \<open>a\<close>, \<open>b\<close>, \<open>OA\<close> and
  \<open>OB\<close> were defined in a previous code cell.
\<close>

definition cell_left_projection :: stmt where
  "cell_left_projection = block
     [assign ''alpha'' (np_array (Vec [Complex 2 1, Complex 1 (- 2)])),
      assign ''projector'' (kron_e (conj_e (var ''alpha'')) (var ''OB'')),
      print_labelled ''LHS1: '' (dot_e (var ''projector'') (kron_e (var ''a'') (var ''b''))),
      print_labelled ''RHS1: '' (mul_e (dot_e (conj_e (var ''alpha'')) (var ''a''))
                                      (dot_e (var ''OB'') (var ''b''))),
      print_shape ''Shape of the <alpha| x O_B matrix is'' (var ''projector''),
      assign ''beta'' (np_array (Vec [Complex 2 1, Complex 1 (- 2), Complex (- 1) (- 1)])),
      assign ''projector'' (kron_e (var ''OA'') (conj_e (var ''beta''))),
      print_labelled ''LHS2: '' (dot_e (var ''projector'') (kron_e (var ''a'') (var ''b''))),
      print_labelled ''RHS2: '' (mul_e (dot_e (conj_e (var ''beta'')) (var ''b''))
                                      (dot_e (var ''OA'') (var ''a''))),
      print_shape ''Shape of the O_A x <beta| matrix is'' (var ''projector'')]"

text \<open>
  The right-projection cell, which starts with the comment that \<open>a\<close>, \<open>b\<close>, \<open>alpha\<close>,
  \<open>beta\<close> and \<open>OB\<close> were defined previously.
\<close>

definition cell_right_projection :: stmt where
  "cell_right_projection = block
     [assign ''projector1'' (T_e (kron_e (var ''alpha'') (T_e (var ''OB'')))),
      print_labelled ''LHS1: '' (dot_e (conj_e (kron_e (var ''a'') (var ''b''))) (var ''projector1'')),
      print_labelled ''RHS1: '' (mul_e (dot_e (conj_e (var ''a'')) (var ''alpha''))
                                      (dot_e (conj_e (var ''b'')) (var ''OB''))),
      assign ''projector2'' (T_e (kron_e (T_e (var ''OA'')) (var ''beta''))),
      print_labelled ''LHS2: '' (dot_e (conj_e (kron_e (var ''a'') (var ''b''))) (var ''projector2'')),
      print_labelled ''RHS2: '' (mul_e (dot_e (conj_e (var ''b'')) (var ''beta''))
                                      (dot_e (conj_e (var ''a'')) (var ''OA'')))]"

text \<open>Two kernels agree on a set of names when \<open>np\<close> and these names are bound alike.\<close>

definition agree_on :: "string set \<Rightarrow> kernel \<Rightarrow> kernel \<Rightarrow> bool" where
  "agree_on S k k' = (np_imported k = np_imported k' \<and> (\<forall>x\<in>S. vars k x = vars k' x))"

text \<open>
  An expression reads only the names in \<open>S\<close> when it has the same value on any two kernels
  that agree on \<open>S\<close>; a statement reads only the names in \<open>S\<close> when on two such kernels it
  raises and prints the same and, when it does not raise, leaves kernels that agree on
  \<open>S'\<close>.
\<close>

definition expr_reads :: "string set \<Rightarrow> expr \<Rightarrow> bool" where
  "expr_reads S e = (\<forall>k k'. agree_on S k k' \<longrightarrow> e k = e k')"

definition stmt_reads :: "string set \<Rightarrow> string set \<Rightarrow> stmt \<Rightarrow> bool" where
  "stmt_reads S S' s =
     (\<forall>k k'. agree_on S k k' \<longrightarrow>
        raised (s k) = raised (s k') \<and> printed (s k) = printed (s k')
        \<and> (raised (s k) = None \<longrightarrow> agree_on S' (kernel_after (s k)) (kernel_after (s k'))))"

section \<open>Properties of the loop\<close>




section \<open>Rounding to float64\<close>

lemma round_even_error: "\<bar>of_int (round_even y) - y\<bar> \<le> 1 / 2"
proof -
  have "of_int \<lfloor>y\<rfloor> \<le> y" "y < of_int \<lfloor>y\<rfloor> + 1"
    by linarith+
  then show ?thesis
    by (auto simp: round_even_def Let_def)
qed

lemma fl64_zero: "fl64 0 = 0"
  by (simp add: fl64_def)

lemma fl64_scaled:
  assumes "0 < x" and "2 powr (of_int e + 52) \<le> x" and "x < 2 powr (of_int e + 53)"
  shows "fl64 x = of_int (round_even (x / 2 powr of_int e)) * 2 powr of_int e"
proof -
  have "\<lfloor>log 2 x\<rfloor> = e + 52"
    using assms floor_log_eq_powr_iff[of x 2 "e + 52"] by (simp add: add.assoc)
  then show ?thesis
    using assms(1) by (simp add: fl64_def Let_def)
qed

lemma fl64_down:
  assumes "2 ^ 52 * 2 ^ k \<le> x" and "x < 2 ^ 53 * 2 ^ k"
  shows "fl64 x = of_int (round_even (x / 2 ^ k)) * 2 ^ k"
proof -
  have p: "2 powr of_int (int k) = (2::real) ^ k"
    by (simp add: powr_realpow)
  have q: "(2::real) powr (of_int (int k) + 52) = 2 ^ 52 * 2 ^ k"
    "(2::real) powr (of_int (int k) + 53) = 2 ^ 53 * 2 ^ k"
    by (simp_all add: powr_add powr_realpow)
  have "0 < x" using assms(1) by (smt (verit) zero_less_power mult_pos_pos)
  then show ?thesis
    using fl64_scaled[of x "int k"] assms by (simp only: p q)
qed

lemma fl64_up:
  assumes "2 ^ 52 \<le> x * 2 ^ k" and "x * 2 ^ k < 2 ^ 53"
  shows "fl64 x = of_int (round_even (x * 2 ^ k)) / 2 ^ k"
proof -
  have p: "2 powr of_int (- int k) = 1 / (2::real) ^ k"
    by (simp add: powr_minus powr_realpow inverse_eq_divide)
  have q: "(2::real) powr (of_int (- int k) + 52) = 2 ^ 52 / 2 ^ k"
    "(2::real) powr (of_int (- int k) + 53) = 2 ^ 53 / 2 ^ k"
    by (simp_all add: powr_diff powr_realpow)
  have "0 < x * 2 ^ k" using assms(1) by (smt (verit) zero_less_power)
  then have x: "0 < x" by (simp add: zero_less_mult_iff)
  have a: "2 ^ 52 / 2 ^ k \<le> x" using assms(1) by (simp add: field_simps)
  have b: "x < 2 ^ 53 / 2 ^ k" using assms(2) by (simp add: field_simps)
  show ?thesis
    using fl64_scaled[of x "- int k"] x a b by (simp only: p q) simp
qed

lemma fl64_error:
  assumes "0 \<le> x"
  shows "\<bar>fl64 x - x\<bar> \<le> x / 2 ^ 53"
proof (cases "x = 0")
  case True
  then show ?thesis by (simp add: fl64_def)
next
  case False
  then have x: "0 < x" using assms by simp
  define m where "m = \<lfloor>log 2 x\<rfloor>"
  define p :: real where "p = 2 powr of_int (m - 52)"
  have p: "0 < p" by (simp add: p_def)
  have "2 powr of_int m \<le> x"
    using floor_log_eq_powr_iff[of x 2 m] x by (simp add: m_def)
  moreover have "2 powr of_int m = p * 2 ^ 52"
    by (simp add: p_def powr_diff field_simps)
  ultimately have low: "p * 2 ^ 52 \<le> x" by simp
  have fl: "fl64 x = of_int (round_even (x / p)) * p"
    using x by (simp add: fl64_def p_def m_def Let_def)
  have "fl64 x - x = (of_int (round_even (x / p)) - x / p) * p"
    using p by (simp add: fl field_simps)
  then have "\<bar>fl64 x - x\<bar> = \<bar>of_int (round_even (x / p)) - x / p\<bar> * p"
    using p by (simp add: abs_mult)
  also have "\<dots> \<le> 1 / 2 * p"
    using round_even_error[of "x / p"] p by (intro mult_right_mono) simp_all
  also have "\<dots> \<le> x / 2 ^ 53"
    using low by (simp add: field_simps)
  finally show ?thesis .
qed

lemma fl64_bounds:
  assumes "0 \<le> x"
  shows "x * (1 - 1 / 2 ^ 53) \<le> fl64 x" and "fl64 x \<le> x * (1 + 1 / 2 ^ 53)"
proof -
  define d where "d = x / 2 ^ 53"
  have e: "\<bar>fl64 x - x\<bar> \<le> d"
    using fl64_error[OF assms] by (simp only: d_def)
  have l: "x * (1 - 1 / 2 ^ 53) = x - d" and u: "x * (1 + 1 / 2 ^ 53) = x + d"
    by (simp_all only: d_def algebra_simps) simp_all
  show "x * (1 - 1 / 2 ^ 53) \<le> fl64 x"
    unfolding l using e by linarith
  show "fl64 x \<le> x * (1 + 1 / 2 ^ 53)"
    unfolding u using e by linarith
qed

lemma fl64_nonneg: "0 \<le> x \<Longrightarrow> 0 \<le> fl64 x"
proof -
  assume a: "0 \<le> x"
  have "0 \<le> x * (1 - 1 / 2 ^ 53)" using a by (intro mult_nonneg_nonneg) simp_all
  then show ?thesis using fl64_bounds(1)[OF a] by linarith
qed


lemma fl64_one: "fl64 1 = 1"
  using fl64_up[of 1 52] by (simp add: round_even_def)

lemma fl64_dot3_self_bounds:
  fixes x y z :: real
  defines "s \<equiv> x * x + y * y + z * z"
  shows "s * (1 - 1 / 2 ^ 53) ^ 3 \<le> fl64_dot3 (x, y, z) (x, y, z)"
    and "fl64_dot3 (x, y, z) (x, y, z) \<le> s * (1 + 1 / 2 ^ 53) ^ 3"
    and "0 \<le> fl64_dot3 (x, y, z) (x, y, z)"
proof -
  define lo :: real where "lo = 1 - 1 / 2 ^ 53"
  define hi :: real where "hi = 1 + 1 / 2 ^ 53"
  have lo: "0 \<le> lo" "lo \<le> 1" and hi: "1 \<le> hi" "0 \<le> hi"
    by (simp_all add: lo_def hi_def)
  define a where "a = fl64 (x * x)"
  define b where "b = fl64 (y * y)"
  define d where "d = fl64 (z * z)"
  define t where "t = fl64 (a + b)"
  define c where "c = fl64 (t + d)"
  have c: "fl64_dot3 (x, y, z) (x, y, z) = c"
    by (simp add: c_def t_def a_def b_def d_def)
  have X: "0 \<le> x * x" and Y: "0 \<le> y * y" and Z: "0 \<le> z * z" by simp_all
  have a: "x * x * lo \<le> a" "a \<le> x * x * hi" "0 \<le> a"
    unfolding a_def lo_def hi_def using fl64_bounds[OF X] fl64_nonneg[OF X] by simp_all
  have b: "y * y * lo \<le> b" "b \<le> y * y * hi" "0 \<le> b"
    unfolding b_def lo_def hi_def using fl64_bounds[OF Y] fl64_nonneg[OF Y] by simp_all
  have d: "z * z * lo \<le> d" "d \<le> z * z * hi" "0 \<le> d"
    unfolding d_def lo_def hi_def using fl64_bounds[OF Z] fl64_nonneg[OF Z] by simp_all
  have ab: "0 \<le> a + b" using a b by simp
  have t: "(a + b) * lo \<le> t" "t \<le> (a + b) * hi" "0 \<le> t"
    unfolding t_def lo_def hi_def using fl64_bounds[OF ab] fl64_nonneg[OF ab] by simp_all
  have td: "0 \<le> t + d" using t d by simp
  have cc: "(t + d) * lo \<le> c" "c \<le> (t + d) * hi" "0 \<le> c"
    unfolding c_def lo_def hi_def using fl64_bounds[OF td] fl64_nonneg[OF td] by simp_all
  have "a + b \<le> (x * x + y * y) * hi"
    using a(2) b(2) by (simp add: algebra_simps)
  then have "(a + b) * hi \<le> (x * x + y * y) * hi * hi"
    using hi(2) by (intro mult_right_mono) simp_all
  then have t_hi: "t \<le> (x * x + y * y) * hi * hi"
    using t(2) by linarith
  have zh: "0 \<le> z * z * hi"
    using Z hi(2) by (rule mult_nonneg_nonneg)
  have "z * z * hi * 1 \<le> z * z * hi * hi"
    using hi(1) zh by (rule mult_left_mono)
  then have d_hi: "d \<le> z * z * hi * hi"
    using d(2) by simp
  have "t + d \<le> s * hi * hi"
    using t_hi d_hi by (simp add: s_def algebra_simps)
  then have "(t + d) * hi \<le> s * hi * hi * hi"
    using hi(2) by (intro mult_right_mono) simp_all
  then have "c \<le> s * hi ^ 3"
    using cc(2) by (simp add: power3_eq_cube mult.assoc)
  then show "fl64_dot3 (x, y, z) (x, y, z) \<le> s * (1 + 1 / 2 ^ 53) ^ 3"
    by (simp only: c hi_def)
  have "(x * x + y * y) * lo \<le> a + b"
    using a(1) b(1) by (simp add: algebra_simps)
  then have "(x * x + y * y) * lo * lo \<le> (a + b) * lo"
    using lo(1) by (intro mult_right_mono) simp_all
  then have t_lo: "(x * x + y * y) * lo * lo \<le> t"
    using t(1) by linarith
  have zl: "0 \<le> z * z * lo"
    using Z lo(1) by (rule mult_nonneg_nonneg)
  have "z * z * lo * lo \<le> z * z * lo * 1"
    using lo(2) zl by (rule mult_left_mono)
  then have d_lo: "z * z * lo * lo \<le> d"
    using d(1) by simp
  have "s * lo * lo \<le> t + d"
    using t_lo d_lo by (simp add: s_def algebra_simps)
  then have "s * lo * lo * lo \<le> (t + d) * lo"
    using lo(1) by (intro mult_right_mono) simp_all
  then have "s * lo ^ 3 \<le> c"
    using cc(1) by (simp add: power3_eq_cube mult.assoc)
  then show "s * (1 - 1 / 2 ^ 53) ^ 3 \<le> fl64_dot3 (x, y, z) (x, y, z)"
    by (simp only: c lo_def)
  show "0 \<le> fl64_dot3 (x, y, z) (x, y, z)"
    using cc(3) by (simp only: c)
qed

lemma V1_inside:
  assumes "x * x + y * y + z * z \<le> 1 - 1 / 2 ^ 50"
  shows "V1 (x, y, z) = 1 / 10"
proof -
  define s where "s = x * x + y * y + z * z"
  have s: "0 \<le> s" "s \<le> 1 - 1 / 2 ^ 50" using assms by (simp_all add: s_def)
  have h: "(0::real) \<le> (1 + 1 / 2 ^ 53) ^ 3" by simp
  have "fl64_dot3 (x, y, z) (x, y, z) \<le> s * (1 + 1 / 2 ^ 53) ^ 3"
    using fl64_dot3_self_bounds(2)[of x y z] by (simp only: s_def)
  also have "\<dots> \<le> (1 - 1 / 2 ^ 50) * (1 + 1 / 2 ^ 53) ^ 3"
    using s(2) h by (rule mult_right_mono)
  also have "\<dots> < 1"
    by (simp add: power_divide field_simps)
  finally have "fl64_dot3 (x, y, z) (x, y, z) < 1" .
  then show ?thesis
    using fl64_dot3_self_bounds(3)[of x y z] by (simp add: V1_def)
qed

lemma V1_outside:
  assumes "1 + 1 / 2 ^ 50 \<le> x * x + y * y + z * z"
  shows "V1 (x, y, z) = 0"
proof -
  define s where "s = x * x + y * y + z * z"
  have s: "1 + 1 / 2 ^ 50 \<le> s" using assms by (simp add: s_def)
  have h: "(0::real) \<le> (1 - 1 / 2 ^ 53) ^ 3" by simp
  have "(1::real) \<le> (1 + 1 / 2 ^ 50) * (1 - 1 / 2 ^ 53) ^ 3"
    by (simp add: power_divide field_simps)
  also have "\<dots> \<le> s * (1 - 1 / 2 ^ 53) ^ 3"
    using s h by (rule mult_right_mono)
  also have "\<dots> \<le> fl64_dot3 (x, y, z) (x, y, z)"
    using fl64_dot3_self_bounds(1)[of x y z] by (simp only: s_def)
  finally have "1 \<le> fl64_dot3 (x, y, z) (x, y, z)" .
  then show ?thesis
    by (simp add: V1_def)
qed

lemma fl64_square_a: "fl64 (4584122596490687 / 2 ^ 53 * (4584122596490687 / 2 ^ 53)) = 2333042645703167 / 2 ^ 53"
  using fl64_up[of "4584122596490687 / 2 ^ 53 * (4584122596490687 / 2 ^ 53)" 54]
  by (simp add: round_even_def)

lemma fl64_square_b: "fl64 (7753415920415347 / 2 ^ 53 * (7753415920415347 / 2 ^ 53)) = 6674156609037825 / 2 ^ 53"
  using fl64_up[of "7753415920415347 / 2 ^ 53 * (7753415920415347 / 2 ^ 53)" 53]
  by (simp add: round_even_def)

lemma V1_rounded_up: "V1 (4584122596490687 / 2 ^ 53, 7753415920415347 / 2 ^ 53, 0) = 0"
  by (simp only: V1_def fl64_dot3.simps fl64_square_a fl64_square_b mult_zero_left fl64_zero) (simp add: fl64_one fl64_zero)











text \<open>Equal wavevectors whose squared magnitude overflows do not pass the guard either.\<close>

lemma fl64_overflow:
  "fl64 (2 ^ 512 * 2 ^ 512) = 2 ^ 1024"
  "fl64 (2 ^ 1024) = 2 ^ 1024"
proof -
  have e: "(2::real) ^ 512 * 2 ^ 512 = 2 ^ 52 * 2 ^ 972" "(2::real) ^ 1024 = 2 ^ 52 * 2 ^ 972"
    by (simp_all flip: power_add)
  have r: "round_even (2 ^ 52) = 2 ^ 52"
    by (simp add: round_even_def)
  have q: "(2::real) ^ 52 * 2 ^ 972 / 2 ^ 972 = 2 ^ 52"
    by simp
  have "fl64 (2 ^ 52 * 2 ^ 972) = of_int (round_even (2 ^ 52 * 2 ^ 972 / 2 ^ 972)) * 2 ^ 972"
    by (rule fl64_down) simp_all
  then have "fl64 (2 ^ 52 * 2 ^ 972) = 2 ^ 52 * 2 ^ 972"
    by (simp only: q r) (simp only: of_int_power of_int_numeral)
  then show "fl64 (2 ^ 512 * 2 ^ 512) = 2 ^ 1024" "fl64 (2 ^ 1024) = 2 ^ 1024"
    by (simp_all only: e)
qed

lemma guard_f64_overflow: "\<not> guard_f64 (2 ^ 512, 0, 0) (2 ^ 512, 0, 0)"
proof -
  have "fl64_dot3 (2 ^ 512, 0, 0) (2 ^ 512, 0, 0) = 2 ^ 1024"
    by (simp only: fl64_dot3.simps fl64_overflow mult_zero_left fl64_zero add_0_right)
  then show ?thesis
    by (simp add: guard_f64_def finite64_def)
qed



lemma fborn1_f64_agrees:
  "guard_f64 ki kf = (\<bar>dot3 ki ki - dot3 kf kf\<bar> < 1 / 100000) \<Longrightarrow>
     fborn1_f64 Vfun ki kf L N g = fborn1 Vfun ki kf L N g"
  by (simp add: fborn1_f64_def fborn1_def)




section \<open>The first Born term\<close>







section \<open>Exchanging the wavevectors\<close>





section \<open>The potential V1\<close>

text \<open>
  Claim C9, on the value \<open>np.dot\<close> computes. \<open>V1(x, y, z)\<close> is 0.1 when the float64 value
  of \<open>np.dot(r, r)\<close>, the rounded sum of the rounded squares, is below 1 and 0.0
  otherwise; it takes no other value. It is 0.1 whenever \<open>x^2 + y^2 + z^2\<close> is at most
  \<open>1 - 2^-50\<close> and 0.0 whenever it is at least \<open>1 + 2^-50\<close>. Closer to the unit sphere
  the rounding decides: at \<open>(0.5089398454328417, 0.8608020874340369, 0)\<close>, inside the
  sphere, both squares are rounded up, their sum is exactly 1 and \<open>V1\<close> is 0.0.
\<close>

theorem V1_values:
  "(V1 (x, y, z) = 1 / 10 \<or> V1 (x, y, z) = 0)
   \<and> V1 (x, y, z) =
       (if fl64 (fl64 (fl64 (x * x) + fl64 (y * y)) + fl64 (z * z)) < 1 then 1 / 10 else 0)
   \<and> (x * x + y * y + z * z \<le> 1 - 1 / 2 ^ 50 \<longrightarrow> V1 (x, y, z) = 1 / 10)
   \<and> (1 + 1 / 2 ^ 50 \<le> x * x + y * y + z * z \<longrightarrow> V1 (x, y, z) = 0)"
proof -
  have "\<bar>fl64_dot3 (x, y, z) (x, y, z)\<bar> = fl64_dot3 (x, y, z) (x, y, z)"
    using fl64_dot3_self_bounds(3)[of x y z] by simp
  then have "V1 (x, y, z) =
      (if fl64 (fl64 (fl64 (x * x) + fl64 (y * y)) + fl64 (z * z)) < 1 then 1 / 10 else 0)"
    by (simp add: V1_def)
  then show ?thesis
    using V1_inside[of x y z] V1_outside[of x y z] by simp
qed

theorem V1_values_witness:
  "(1 / 2) * (1 / 2) + (1 / 2) * (1 / 2) + (1 / 2) * (1 / 2) \<le> (1::real) - 1 / 2 ^ 50
   \<and> V1 (1 / 2, 1 / 2, 1 / 2) = 1 / 10
   \<and> (1::real) + 1 / 2 ^ 50 \<le> 1 * 1 + 1 * 1 + 0 * 0
   \<and> V1 (1, 1, 0) = 0"
  using V1_values[of "1 / 2" "1 / 2" "1 / 2"] V1_values[of 1 1 0]
  by simp

theorem V1_inside_sphere_counterexample:
  "4584122596490687 / 2 ^ 53 * (4584122596490687 / 2 ^ 53)
     + 7753415920415347 / 2 ^ 53 * (7753415920415347 / 2 ^ 53) + 0 * 0 < (1::real)
   \<and> sqrt (4584122596490687 / 2 ^ 53 * (4584122596490687 / 2 ^ 53)
     + 7753415920415347 / 2 ^ 53 * (7753415920415347 / 2 ^ 53) + 0 * 0) < 1
   \<and> V1 (4584122596490687 / 2 ^ 53, 7753415920415347 / 2 ^ 53, 0) = 0"
  using V1_rounded_up by simp

section \<open>The singlet state and its partial trace\<close>

lemma inv_sqrt2_square: "complex_of_real (1 / sqrt 2) * complex_of_real (1 / sqrt 2) = 1 / 2"
proof -
  have "complex_of_real (1 / sqrt 2) * complex_of_real (1 / sqrt 2)
      = complex_of_real ((1 / sqrt 2) * (1 / sqrt 2))"
    by (simp only: of_real_mult)
  also have "(1 / sqrt 2) * (1 / sqrt 2) = (1 / 2 :: real)"
    by simp
  finally show ?thesis by simp
qed

lemma singlet_psi_val: "singlet_psi = [0, complex_of_real (1 / sqrt 2), - complex_of_real (1 / sqrt 2), 0]"
  by (simp add: singlet_psi_def scale_vec_def sub_vec_def kron_vec_def up_def down_def)

lemma singlet_rho_val:
  "singlet_rho = [[0, 0, 0, 0], [0, 1 / 2, - (1 / 2), 0], [0, - (1 / 2), 1 / 2, 0], [0, 0, 0, 0]]"
  unfolding singlet_rho_def singlet_psi_val outer_def conj_vec_def
  using inv_sqrt2_square by simp

lemma upt_0_2: "[0..<2] = [0, 1]"
  by (simp add: upt_conv_Cons)

lemma eye2: "eye 2 = [[1, 0], [0, 1]]"
  by (simp add: eye_def upt_0_2)

lemma identity_kron_bra:
  "kron_mat (eye 2) (basis_bra 2 0) = [[1, 0, 0, 0], [0, 0, 1, 0]]"
  "kron_mat (eye 2) (basis_bra 2 (Suc 0)) = [[0, 1, 0, 0], [0, 0, 0, 1]]"
  by (simp_all add: eye2 basis_bra_def upt_0_2 kron_mat_def kron_vec_def)

lemma identity_kron_ket:
  "kron_mat (eye 2) (basis_ket 2 0) = [[1, 0], [0, 0], [0, 1], [0, 0]]"
  "kron_mat (eye 2) (basis_ket 2 (Suc 0)) = [[0, 0], [1, 0], [0, 0], [0, 1]]"
  by (simp_all add: eye2 basis_ket_def upt_0_2 kron_mat_def kron_vec_def)

lemma transpose_ket:
  "transpose [[1, 0], [0, 0], [0, 1], [0, 0 :: complex]] = [[1, 0, 0, 0], [0, 0, 1, 0]]"
  "transpose [[0, 0], [1, 0], [0, 0], [0, 1 :: complex]] = [[0, 1, 0, 0], [0, 0, 0, 1]]"
  by simp_all

lemma transpose_singlet:
  "transpose [[0, 0, 0, 0], [0, 1 / 2, - (1 / 2), 0], [0, - (1 / 2), 1 / 2, 0], [0, 0, 0, 0 :: complex]]
     = [[0, 0, 0, 0], [0, 1 / 2, - (1 / 2), 0], [0, - (1 / 2), 1 / 2, 0], [0, 0, 0, 0]]"
  by simp

lemma singlet_term0:
  "mat_mul (mat_mul (kron_mat (eye 2) (basis_bra 2 0)) singlet_rho) (kron_mat (eye 2) (basis_ket 2 0))
     = [[0, 0], [0, 1 / 2]]"
  unfolding singlet_rho_val identity_kron_bra identity_kron_ket
  by (simp add: mat_mul_def transpose_ket transpose_singlet dot_vec_def)

lemma singlet_term1:
  "mat_mul (mat_mul (kron_mat (eye 2) (basis_bra 2 (Suc 0))) singlet_rho)
      (kron_mat (eye 2) (basis_ket 2 (Suc 0)))
     = [[1 / 2, 0], [0, 0]]"
  unfolding singlet_rho_val identity_kron_bra identity_kron_ket
  by (simp add: mat_mul_def transpose_ket transpose_singlet dot_vec_def)

lemma zero_mat2: "zero_mat 2 = [[0, 0], [0, 0]]"
  by (simp add: zero_mat_def eval_nat_numeral)

lemma partial_trace_singlet: "partial_trace_B singlet_rho 2 2 = [[1 / 2, 0], [0, 1 / 2]]"
  unfolding partial_trace_B_def upt_0_2
  by (simp add: singlet_term0 singlet_term1 zero_mat2 mat_add_def)


lemma shape_eye: "shape0 (eye n) = n" "shape1 (eye n) = n"
proof -
  show "shape0 (eye n) = n" by (simp add: shape0_def eye_def)
  show "shape1 (eye n) = n"
  proof (cases n)
    case 0
    then show ?thesis by (simp add: shape1_def eye_def)
  next
    case (Suc k)
    then show ?thesis by (simp add: shape1_def eye_def upt_conv_Cons del: upt_Suc)
  qed
qed

lemma eye_nth: "i < n \<Longrightarrow> j < n \<Longrightarrow> eye n ! i ! j = (if i = j then 1 else 0)"
  by (simp add: eye_def)

lemma eye_row_length: "i < n \<Longrightarrow> length (eye n ! i) = n"
  by (simp add: eye_def)

lemma rdm_square:
  assumes "shape0 rho = shape1 rho" and "1 \<le> dimA"
  shows "reduced_density_matrix_A rho dimA = Inr (eye (nat dimA))"
  using assms by (simp add: reduced_density_matrix_A_def floordiv_def np_eye_def)

lemma singlet_square: "shape0 singlet_rho = 4" "shape1 singlet_rho = 4"
  by (simp_all add: singlet_rho_val shape0_def shape1_def)

section \<open>The exercises as shipped\<close>

text \<open>
  Claim C6, for \<open>dimA \<ge> 1\<close>. The exercises are unfinished stubs: \<open>fborn2\<close> returns 0.0 for every
  input, and for every square \<open>rho\<close> and every \<open>dimA \<ge> 1\<close>,
  \<open>reduced_density_matrix_A(rho, dimA)\<close> returns the \<open>dimA\<close>-by-\<open>dimA\<close> identity matrix
  whatever \<open>rho\<close> holds. For \<open>dimA = 0\<close> the floor division raises ZeroDivisionError
  instead.
\<close>

theorem stubs_as_shipped:
  "fborn2 Vfun ki kf L N = 0
   \<and> (shape0 rho = shape1 rho \<and> 1 \<le> dimA \<longrightarrow>
        reduced_density_matrix_A rho dimA = Inr (eye (nat dimA))
        \<and> length (eye (nat dimA)) = nat dimA
        \<and> (\<forall>i<nat dimA. length (eye (nat dimA) ! i) = nat dimA
              \<and> (\<forall>j<nat dimA. eye (nat dimA) ! i ! j = (if i = j then 1 else 0))))"
  by (simp add: fborn2_def rdm_square eye_nth eye_row_length) (simp add: eye_def)

theorem stubs_as_shipped_witness:
  "shape0 singlet_rho = shape1 singlet_rho \<and> (1::int) \<le> 2
   \<and> fborn2 V1c (0, 0, 1) (1, 0, 0) 1 5000 = 0
   \<and> reduced_density_matrix_A singlet_rho 2 = Inr [[1, 0], [0, 1]]"
  using stubs_as_shipped[of V1c "(0, 0, 1)" "(1, 0, 0)" 1 5000 singlet_rho 2]
  by (simp add: singlet_square eye2)

theorem stub_zero_dimA_counterexample:
  "shape0 singlet_rho = shape1 singlet_rho
   \<and> reduced_density_matrix_A singlet_rho 0 = Inl ZeroDivisionError"
  by (simp add: singlet_square reduced_density_matrix_A_def floordiv_def)

text \<open>
  Claim C10, for \<open>dimA \<ge> 1\<close>. \<open>reduced_density_matrix_A\<close> raises AssertionError exactly when
  \<open>rho\<close> is not square. It does not check that \<open>dimA\<close> divides the dimension: for a square
  \<open>rho\<close> and \<open>dimA \<ge> 1\<close>, multiple or not, \<open>dimB\<close> is the floor of the quotient, no error is
  raised and a \<open>dimA\<close>-by-\<open>dimA\<close> matrix is returned. For a square \<open>rho\<close>, \<open>dimA = 0\<close>
  raises ZeroDivisionError in the floor division and a negative \<open>dimA\<close> raises ValueError in
  \<open>np.eye\<close>.
\<close>

theorem reduced_density_matrix_A_errors:
  "(reduced_density_matrix_A rho dimA = Inl AssertionError \<longleftrightarrow> shape0 rho \<noteq> shape1 rho)
   \<and> (shape0 rho = shape1 rho \<and> 1 \<le> dimA \<longrightarrow>
        floordiv (int (shape0 rho)) dimA = Inr \<lfloor>real (shape0 rho) / real_of_int dimA\<rfloor>
        \<and> (\<exists>M. reduced_density_matrix_A rho dimA = Inr M
                 \<and> shape0 M = nat dimA \<and> shape1 M = nat dimA))
   \<and> (shape0 rho = shape1 rho \<and> dimA = 0 \<longrightarrow>
        reduced_density_matrix_A rho dimA = Inl ZeroDivisionError)
   \<and> (shape0 rho = shape1 rho \<and> dimA < 0 \<longrightarrow>
        reduced_density_matrix_A rho dimA = Inl ValueError)"
proof -
  have fl: "int (shape0 rho) div dimA = \<lfloor>real (shape0 rho) / real_of_int dimA\<rfloor>"
    using floor_divide_of_int_eq[where ?'a = real, of "int (shape0 rho)" dimA] by simp
  have a: "reduced_density_matrix_A rho dimA = Inl AssertionError \<longleftrightarrow> shape0 rho \<noteq> shape1 rho"
    by (simp add: reduced_density_matrix_A_def floordiv_def np_eye_def)
  have b: "floordiv (int (shape0 rho)) dimA = Inr \<lfloor>real (shape0 rho) / real_of_int dimA\<rfloor>"
    if "1 \<le> dimA"
    using that fl by (simp add: floordiv_def)
  have c: "\<exists>M. reduced_density_matrix_A rho dimA = Inr M \<and> shape0 M = nat dimA \<and> shape1 M = nat dimA"
    if "shape0 rho = shape1 rho" "1 \<le> dimA"
    using rdm_square[OF that] shape_eye by simp
  have d: "reduced_density_matrix_A rho dimA = Inl ZeroDivisionError"
    if "shape0 rho = shape1 rho" "dimA = 0"
    using that by (simp add: reduced_density_matrix_A_def floordiv_def)
  have e: "reduced_density_matrix_A rho dimA = Inl ValueError"
    if "shape0 rho = shape1 rho" "dimA < 0"
    using that by (simp add: reduced_density_matrix_A_def floordiv_def np_eye_def)
  show ?thesis
    using a b c d e by blast
qed

lemma eye3: "eye 3 = [[1, 0, 0], [0, 1, 0], [0, 0, 1]]"
  by (simp add: eye_def upt_conv_Cons)

theorem reduced_density_matrix_A_errors_witness:
  "reduced_density_matrix_A [[1, 2]] 1 = Inl AssertionError
   \<and> \<not> (2::int) dvd int (shape0 (eye 3))
   \<and> floordiv (int (shape0 (eye 3))) 2 = Inr 1
   \<and> (\<exists>M. reduced_density_matrix_A (eye 3) 2 = Inr M \<and> shape0 M = 2 \<and> shape1 M = 2)
   \<and> reduced_density_matrix_A (eye 3) 0 = Inl ZeroDivisionError
   \<and> reduced_density_matrix_A (eye 3) (- 2) = Inl ValueError"
proof -
  have ns: "shape0 [[1, 2 :: complex]] \<noteq> shape1 [[1, 2 :: complex]]"
    by (simp add: shape0_def shape1_def)
  have sq: "shape0 (eye 3) = shape1 (eye 3)" "shape0 (eye 3) = 3"
    by (simp_all add: shape_eye)
  have fl: "\<lfloor>real 3 / real_of_int 2\<rfloor> = 1"
    by (simp add: floor_eq_iff)
  show ?thesis
    using reduced_density_matrix_A_errors[of "[[1, 2]]" 1] ns
      reduced_density_matrix_A_errors[of "eye 3" 2]
      reduced_density_matrix_A_errors[of "eye 3" 0]
      reduced_density_matrix_A_errors[of "eye 3" "- 2"] sq fl
    by simp
qed

theorem reduced_density_matrix_A_zero_dimA_counterexample:
  "shape0 [[1]] = shape1 [[1]] \<and> \<not> (0::int) dvd int (shape0 [[1]])
   \<and> reduced_density_matrix_A [[1]] 0 = Inl ZeroDivisionError"
  by (simp add: shape0_def shape1_def reduced_density_matrix_A_def floordiv_def)

text \<open>
  Claim C2, at the input of the notebook's own check. For the density matrix of the singlet
  state and \<open>dimA = 2\<close>, the partial trace over B is half the identity, and
  \<open>reduced_density_matrix_A\<close> returns the identity: the function does not return the
  reduced density matrix.
\<close>

theorem reduced_density_matrix_A_singlet:
  "reduced_density_matrix_A singlet_rho 2 = Inr [[1, 0], [0, 1]]
   \<and> partial_trace_B singlet_rho 2 2 = [[1 / 2, 0], [0, 1 / 2]]
   \<and> reduced_density_matrix_A singlet_rho 2 \<noteq> Inr (partial_trace_B singlet_rho 2 2)"
  by (simp add: partial_trace_singlet reduced_density_matrix_A_def singlet_square floordiv_def np_eye_def eye2)

lemma transpose_eye2: "transpose [[1, 0], [0, 1 :: complex]] = [[1, 0], [0, 1]]"
  by simp

text \<open>
  Claim C4, at the input of the notebook's own check. The density matrix of the singlet
  state is the outer product of a unit vector with its conjugate, Hermitian and of trace 1.
  What \<open>reduced_density_matrix_A\<close> returns for it with \<open>dimA = 2\<close> is Hermitian, but both
  basis vectors are eigenvectors of eigenvalue 1, so the eigenvalues sum to the trace 2,
  not to 1.
\<close>

theorem reduced_density_matrix_A_trace:
  "singlet_rho = outer singlet_psi (conj_vec singlet_psi)
   \<and> dot_vec (conj_vec singlet_psi) singlet_psi = 1
   \<and> hermitian singlet_rho \<and> trace singlet_rho = 1
   \<and> reduced_density_matrix_A singlet_rho 2 = Inr (eye 2)
   \<and> hermitian (eye 2)
   \<and> mat_vec (eye 2) [1, 0] = scale_vec 1 [1, 0]
   \<and> mat_vec (eye 2) [0, 1] = scale_vec 1 [0, 1]
   \<and> trace (eye 2) = 2"
proof -
  have n: "dot_vec (conj_vec singlet_psi) singlet_psi = 1"
    unfolding singlet_psi_val using inv_sqrt2_square by (simp add: dot_vec_def conj_vec_def)
  have h: "hermitian singlet_rho"
    unfolding singlet_rho_val by (simp add: hermitian_def conj_transpose_def transpose_singlet)
  have t: "trace singlet_rho = 1"
    unfolding singlet_rho_val by (simp add: trace_def upt_conv_Cons)
  have r: "reduced_density_matrix_A singlet_rho 2 = Inr (eye 2)"
    using rdm_square[of singlet_rho 2] by (simp add: singlet_square)
  have e: "hermitian (eye 2)" "trace (eye 2) = 2"
    "mat_vec (eye 2) [1, 0] = scale_vec 1 [1, 0]" "mat_vec (eye 2) [0, 1] = scale_vec 1 [0, 1]"
    unfolding eye2
    by (simp_all add: hermitian_def conj_transpose_def transpose_eye2 trace_def upt_conv_Cons
        mat_vec_def dot_vec_def scale_vec_def)
  show ?thesis
    using n h t r e by (simp add: singlet_rho_def)
qed

section \<open>What a cell reads\<close>

lemma reads_var: "x \<in> S \<Longrightarrow> expr_reads S (var x)"
  by (simp add: expr_reads_def agree_on_def var_def)

lemma reads_np_array: "expr_reads S (np_array v)"
  by (simp add: expr_reads_def agree_on_def np_array_def)

lemma reads_np_call2: "expr_reads S e1 \<Longrightarrow> expr_reads S e2 \<Longrightarrow> expr_reads S (np_call2 f e1 e2)"
  unfolding expr_reads_def np_call2_def
proof (intro allI impI)
  fix k k'
  assume a: "\<forall>k k'. agree_on S k k' \<longrightarrow> e1 k = e1 k'" "\<forall>k k'. agree_on S k k' \<longrightarrow> e2 k = e2 k'"
    and b: "agree_on S k k'"
  have "e1 k = e1 k'" "e2 k = e2 k'" "np_imported k = np_imported k'"
    using a b by (auto simp: agree_on_def)
  then show "(if \<not> np_imported k then Inl (NameError ''np'')
        else case e1 k of Inl e \<Rightarrow> Inl e
             | Inr v1 \<Rightarrow> (case e2 k of Inl e \<Rightarrow> Inl e | Inr v2 \<Rightarrow> f v1 v2))
      = (if \<not> np_imported k' then Inl (NameError ''np'')
        else case e1 k' of Inl e \<Rightarrow> Inl e
             | Inr v1 \<Rightarrow> (case e2 k' of Inl e \<Rightarrow> Inl e | Inr v2 \<Rightarrow> f v1 v2))"
    by (simp split: sum.splits)
qed

lemma reads_kron: "expr_reads S e1 \<Longrightarrow> expr_reads S e2 \<Longrightarrow> expr_reads S (kron_e e1 e2)"
  by (simp add: kron_e_def reads_np_call2)

lemma reads_dot: "expr_reads S e1 \<Longrightarrow> expr_reads S e2 \<Longrightarrow> expr_reads S (dot_e e1 e2)"
  by (simp add: dot_e_def reads_np_call2)

lemma reads_conj: "expr_reads S e \<Longrightarrow> expr_reads S (conj_e e)"
  by (simp add: expr_reads_def conj_e_def)

lemma reads_T: "expr_reads S e \<Longrightarrow> expr_reads S (T_e e)"
  by (simp add: expr_reads_def T_e_def)

lemma reads_mul: "expr_reads S e1 \<Longrightarrow> expr_reads S e2 \<Longrightarrow> expr_reads S (mul_e e1 e2)"
  unfolding expr_reads_def
proof (intro allI impI)
  fix k k'
  assume a: "\<forall>k k'. agree_on S k k' \<longrightarrow> e1 k = e1 k'" "\<forall>k k'. agree_on S k k' \<longrightarrow> e2 k = e2 k'"
    and b: "agree_on S k k'"
  have "e1 k = e1 k'" "e2 k = e2 k'"
    using a b by blast+
  then show "mul_e e1 e2 k = mul_e e1 e2 k'"
    by (simp add: mul_e_def split: sum.splits)
qed

lemma reads_assign: "expr_reads S e \<Longrightarrow> stmt_reads S (insert x S) (assign x e)"
  unfolding expr_reads_def stmt_reads_def
proof (intro allI impI)
  fix k k'
  assume a: "\<forall>k k'. agree_on S k k' \<longrightarrow> e k = e k'" and b: "agree_on S k k'"
  have eq: "e k = e k'" using a b by blast
  show "raised (assign x e k) = raised (assign x e k') \<and>
       printed (assign x e k) = printed (assign x e k') \<and>
       (raised (assign x e k) = None \<longrightarrow>
        agree_on (insert x S) (kernel_after (assign x e k)) (kernel_after (assign x e k')))"
    using b by (cases "e k'") (simp_all add: assign_def eq agree_on_def)
qed

lemma reads_print_array: "expr_reads S e \<Longrightarrow> stmt_reads S S (print_array e)"
  unfolding expr_reads_def stmt_reads_def
proof (intro allI impI)
  fix k k'
  assume a: "\<forall>k k'. agree_on S k k' \<longrightarrow> e k = e k'" and b: "agree_on S k k'"
  have eq: "e k = e k'" using a b by blast
  show "raised (print_array e k) = raised (print_array e k') \<and>
       printed (print_array e k) = printed (print_array e k') \<and>
       (raised (print_array e k) = None \<longrightarrow>
        agree_on S (kernel_after (print_array e k)) (kernel_after (print_array e k')))"
    using b by (cases "e k'") (simp_all add: print_array_def eq)
qed

lemma reads_print_labelled: "expr_reads S e \<Longrightarrow> stmt_reads S S (print_labelled l e)"
  unfolding expr_reads_def stmt_reads_def
proof (intro allI impI)
  fix k k'
  assume a: "\<forall>k k'. agree_on S k k' \<longrightarrow> e k = e k'" and b: "agree_on S k k'"
  have eq: "e k = e k'" using a b by blast
  show "raised (print_labelled l e k) = raised (print_labelled l e k') \<and>
       printed (print_labelled l e k) = printed (print_labelled l e k') \<and>
       (raised (print_labelled l e k) = None \<longrightarrow>
        agree_on S (kernel_after (print_labelled l e k)) (kernel_after (print_labelled l e k')))"
    using b by (cases "e k'") (simp_all add: print_labelled_def eq)
qed

lemma reads_print_shape: "expr_reads S e \<Longrightarrow> stmt_reads S S (print_shape l e)"
  unfolding expr_reads_def stmt_reads_def
proof (intro allI impI)
  fix k k'
  assume a: "\<forall>k k'. agree_on S k k' \<longrightarrow> e k = e k'" and b: "agree_on S k k'"
  have eq: "e k = e k'" using a b by blast
  show "raised (print_shape l e k) = raised (print_shape l e k') \<and>
       printed (print_shape l e k) = printed (print_shape l e k') \<and>
       (raised (print_shape l e k) = None \<longrightarrow>
        agree_on S (kernel_after (print_shape l e k)) (kernel_after (print_shape l e k')))"
    using b by (cases "e k'") (simp_all add: print_shape_def eq)
qed

lemma reads_skip: "stmt_reads S S skip"
  by (simp add: stmt_reads_def skip_def)

lemma reads_seq:
  assumes "stmt_reads S S' s1" and "stmt_reads S' S'' s2"
  shows "stmt_reads S S'' (seq_stmt s1 s2)"
  unfolding stmt_reads_def
proof (intro allI impI)
  fix k k'
  assume b: "agree_on S k k'"
  have 1: "raised (s1 k) = raised (s1 k')" "printed (s1 k) = printed (s1 k')"
    "raised (s1 k) = None \<Longrightarrow> agree_on S' (kernel_after (s1 k)) (kernel_after (s1 k'))"
    using assms(1) b by (simp_all add: stmt_reads_def)
  show "raised (seq_stmt s1 s2 k) = raised (seq_stmt s1 s2 k') \<and>
       printed (seq_stmt s1 s2 k) = printed (seq_stmt s1 s2 k') \<and>
       (raised (seq_stmt s1 s2 k) = None \<longrightarrow>
        agree_on S'' (kernel_after (seq_stmt s1 s2 k)) (kernel_after (seq_stmt s1 s2 k')))"
  proof (cases "raised (s1 k)")
    case (Some err)
    then have "raised (s1 k') = Some err" using 1(1) by simp
    with Some show ?thesis using 1(2) by (simp add: seq_stmt_def)
  next
    case None
    then have n': "raised (s1 k') = None" using 1(1) by simp
    have 2: "raised (s2 (kernel_after (s1 k))) = raised (s2 (kernel_after (s1 k')))"
      "printed (s2 (kernel_after (s1 k))) = printed (s2 (kernel_after (s1 k')))"
      "raised (s2 (kernel_after (s1 k))) = None \<Longrightarrow>
         agree_on S'' (kernel_after (s2 (kernel_after (s1 k)))) (kernel_after (s2 (kernel_after (s1 k'))))"
      using assms(2) 1(3)[OF None] by (simp_all add: stmt_reads_def)
    show ?thesis
      using None n' 1(2) 2 by (simp add: seq_stmt_def Let_def)
  qed
qed

lemmas reads_stmt_intros = reads_assign reads_print_array reads_print_labelled reads_print_shape

lemmas reads_expr_intros = reads_var reads_np_array reads_kron reads_dot reads_conj reads_T reads_mul

lemma left_projection_reads:
  "stmt_reads {''a'', ''b'', ''OA'', ''OB''}
     (insert ''projector'' (insert ''beta'' (insert ''projector'' (insert ''alpha'' {''a'', ''b'', ''OA'', ''OB''}))))
     cell_left_projection"
  unfolding cell_left_projection_def block_def foldr.simps o_apply id_apply
  by ((rule reads_seq, rule reads_stmt_intros, (intro reads_expr_intros; simp))+, rule reads_skip)

lemma right_projection_reads:
  "stmt_reads {''a'', ''b'', ''alpha'', ''beta'', ''OA'', ''OB''}
     (insert ''projector2'' (insert ''projector1'' {''a'', ''b'', ''alpha'', ''beta'', ''OA'', ''OB''}))
     cell_right_projection"
  unfolding cell_right_projection_def block_def foldr.simps o_apply id_apply
  by ((rule reads_seq, rule reads_stmt_intros, (intro reads_expr_intros; simp))+, rule reads_skip)

lemmas cell_defs = block_def seq_stmt_def skip_def assign_def print_array_def print_labelled_def print_shape_def
  import_numpy_as_np_def var_def np_array_def np_call2_def kron_e_def dot_e_def conj_e_def T_e_def mul_e_def
  then_run_def fresh_kernel_def

lemma left_no_np: "\<not> np_imported k \<Longrightarrow> raised (cell_left_projection k) = Some (NameError ''np'')"
  by (simp add: cell_left_projection_def cell_defs)

lemma right_no_np: "\<not> np_imported k \<Longrightarrow> raised (cell_right_projection k) = Some (NameError ''np'')"
  by (simp add: cell_right_projection_def cell_defs)

lemma left_no_OB: "np_imported k \<Longrightarrow> vars k ''OB'' = None \<Longrightarrow> raised (cell_left_projection k) = Some (NameError ''OB'')"
  by (simp add: cell_left_projection_def cell_defs)

lemma right_no_alpha: "np_imported k \<Longrightarrow> vars k ''alpha'' = None \<Longrightarrow> raised (cell_right_projection k) = Some (NameError ''alpha'')"
  by (simp add: cell_right_projection_def cell_defs)

lemma left_no_a:
  "np_imported k \<Longrightarrow> vars k ''OB'' = Some ob \<Longrightarrow> vars k ''a'' = None \<Longrightarrow>
     raised (cell_left_projection k) = Some (NameError ''a'')"
  by (simp add: cell_left_projection_def cell_defs)

lemma left_no_b:
  "np_imported k \<Longrightarrow> vars k ''OB'' = Some ob \<Longrightarrow> vars k ''a'' = Some av \<Longrightarrow> vars k ''b'' = None \<Longrightarrow>
     raised (cell_left_projection k) = Some (NameError ''b'')"
  by (simp add: cell_left_projection_def cell_defs)

lemma left_no_OA:
  "np_imported k \<Longrightarrow> vars k ''OB'' = Some ob \<Longrightarrow> vars k ''a'' = Some av \<Longrightarrow> vars k ''b'' = Some bv \<Longrightarrow>
     vars k ''OA'' = None \<Longrightarrow> raised (cell_left_projection k) \<noteq> None"
  by (simp add: cell_left_projection_def cell_defs split: sum.splits)

lemma left_needs:
  assumes "raised (cell_left_projection k) = None"
  shows "np_imported k \<and> vars k ''a'' \<noteq> None \<and> vars k ''b'' \<noteq> None
       \<and> vars k ''OA'' \<noteq> None \<and> vars k ''OB'' \<noteq> None"
proof -
  have np: "np_imported k"
    using assms left_no_np[of k] by (cases "np_imported k") simp_all
  obtain ob where ob: "vars k ''OB'' = Some ob"
    using assms left_no_OB[OF np] by (cases "vars k ''OB''") simp_all
  obtain av where av: "vars k ''a'' = Some av"
    using assms left_no_a[OF np ob] by (cases "vars k ''a''") simp_all
  obtain bv where bv: "vars k ''b'' = Some bv"
    using assms left_no_b[OF np ob av] by (cases "vars k ''b''") simp_all
  have "vars k ''OA'' \<noteq> None"
    using assms left_no_OA[OF np ob av bv] by blast
  then show ?thesis
    using np ob av bv by simp
qed

lemma right_no_OB:
  "np_imported k \<Longrightarrow> vars k ''alpha'' = Some al \<Longrightarrow> vars k ''OB'' = None \<Longrightarrow>
     raised (cell_right_projection k) = Some (NameError ''OB'')"
  by (simp add: cell_right_projection_def cell_defs)

lemma right_no_a:
  "np_imported k \<Longrightarrow> vars k ''alpha'' = Some al \<Longrightarrow> vars k ''OB'' = Some ob \<Longrightarrow>
     vars k ''a'' = None \<Longrightarrow> raised (cell_right_projection k) = Some (NameError ''a'')"
  by (simp add: cell_right_projection_def cell_defs)

lemma right_no_b:
  "np_imported k \<Longrightarrow> vars k ''alpha'' = Some al \<Longrightarrow> vars k ''OB'' = Some ob \<Longrightarrow>
     vars k ''a'' = Some av \<Longrightarrow> vars k ''b'' = None \<Longrightarrow>
     raised (cell_right_projection k) = Some (NameError ''b'')"
  by (simp add: cell_right_projection_def cell_defs)

lemma right_no_OA:
  "np_imported k \<Longrightarrow> vars k ''alpha'' = Some al \<Longrightarrow> vars k ''OB'' = Some ob \<Longrightarrow>
     vars k ''a'' = Some av \<Longrightarrow> vars k ''b'' = Some bv \<Longrightarrow> vars k ''OA'' = None \<Longrightarrow>
     raised (cell_right_projection k) \<noteq> None"
  by (simp add: cell_right_projection_def cell_defs split: sum.splits)

lemma right_no_beta:
  "np_imported k \<Longrightarrow> vars k ''alpha'' = Some al \<Longrightarrow> vars k ''OB'' = Some ob \<Longrightarrow>
     vars k ''a'' = Some av \<Longrightarrow> vars k ''b'' = Some bv \<Longrightarrow> vars k ''OA'' = Some oa \<Longrightarrow>
     vars k ''beta'' = None \<Longrightarrow> raised (cell_right_projection k) \<noteq> None"
  by (simp add: cell_right_projection_def cell_defs split: sum.splits)

lemma right_needs:
  assumes "raised (cell_right_projection k) = None"
  shows "np_imported k \<and> vars k ''a'' \<noteq> None \<and> vars k ''b'' \<noteq> None
       \<and> vars k ''alpha'' \<noteq> None \<and> vars k ''beta'' \<noteq> None
       \<and> vars k ''OA'' \<noteq> None \<and> vars k ''OB'' \<noteq> None"
proof -
  have np: "np_imported k"
    using assms right_no_np[of k] by (cases "np_imported k") simp_all
  obtain al where al: "vars k ''alpha'' = Some al"
    using assms right_no_alpha[OF np] by (cases "vars k ''alpha''") simp_all
  obtain ob where ob: "vars k ''OB'' = Some ob"
    using assms right_no_OB[OF np al] by (cases "vars k ''OB''") simp_all
  obtain av where av: "vars k ''a'' = Some av"
    using assms right_no_a[OF np al ob] by (cases "vars k ''a''") simp_all
  obtain bv where bv: "vars k ''b'' = Some bv"
    using assms right_no_b[OF np al ob av] by (cases "vars k ''b''") simp_all
  obtain oa where oa: "vars k ''OA'' = Some oa"
    using assms right_no_OA[OF np al ob av bv] by (cases "vars k ''OA''") simp_all
  have "vars k ''beta'' \<noteq> None"
    using assms right_no_beta[OF np al ob av bv oa] by blast
  then show ?thesis
    using np al ob av bv oa by simp
qed

lemmas np_defs = np_kron_def of_2d_def kron_mat_def kron_vec_def np_mul_def shape0_def shape1_def
  dot_vec_def mat_vec_def vec_mat_def mat_mul_def scale_vec_def conj_vec_def

lemma left_projection_output:
  "raised (then_run (then_run (cell_vectors fresh_kernel) cell_operators) cell_left_projection) = None \<and>
   printed (then_run (then_run (cell_vectors fresh_kernel) cell_operators) cell_left_projection) =
   [[OStr ''LHS1: '', OArr (Vec [Complex 9 3, Complex 24 8, Complex 3 1])],
    [OStr ''RHS1: '', OArr (Vec [Complex 9 3, Complex 24 8, Complex 3 1])],
    [OStr ''Shape of the <alpha| x O_B matrix is'', OShape [3, 6]],
    [OStr ''LHS2: '', OArr (Vec [Complex (- 8) 19, Complex (- 13) (- 1)])],
    [OStr ''RHS2: '', OArr (Vec [Complex (- 8) 19, Complex (- 13) (- 1)])],
    [OStr ''Shape of the O_A x <beta| matrix is'', OShape [2, 6]]]"
  by (simp add: cell_vectors_def cell_operators_def cell_left_projection_def cell_defs np_defs
      complex_eq_iff)

lemma right_projection_output:
  "raised (then_run (then_run (then_run (cell_vectors fresh_kernel) cell_operators)
      cell_left_projection) cell_right_projection) = None \<and>
   printed (then_run (then_run (then_run (cell_vectors fresh_kernel) cell_operators)
      cell_left_projection) cell_right_projection) =
   [[OStr ''LHS1: '', OArr (Vec [Complex 5 5, Complex 18 (- 6), Complex 1 13])],
    [OStr ''RHS1: '', OArr (Vec [Complex 5 5, Complex 18 (- 6), Complex 1 13])],
    [OStr ''LHS2: '', OArr (Vec [Complex (- 3) (- 22), Complex (- 6) (- 10)])],
    [OStr ''RHS2: '', OArr (Vec [Complex (- 3) (- 22), Complex (- 6) (- 10)])]]"
  by (simp add: cell_vectors_def cell_operators_def cell_left_projection_def
      cell_right_projection_def cell_defs np_defs complex_eq_iff)

lemma notebook_order_agrees:
  "agree_on {''a'', ''b'', ''OA'', ''OB''}
     (kernel_after (then_run (cell_vectors fresh_kernel) cell_operators))
     (kernel_after (then_run (then_run (cell_vectors fresh_kernel) cell_kron_ba) cell_operators))"
  by (simp add: agree_on_def cell_vectors_def cell_kron_ba_def cell_operators_def cell_defs np_defs)

lemma notebook_order_agrees_after_left:
  "agree_on {''a'', ''b'', ''alpha'', ''beta'', ''OA'', ''OB''}
     (kernel_after (then_run (then_run (cell_vectors fresh_kernel) cell_operators) cell_left_projection))
     (kernel_after (then_run (then_run (then_run (cell_vectors fresh_kernel) cell_kron_ba) cell_operators)
        cell_left_projection))"
  by (simp add: agree_on_def cell_vectors_def cell_kron_ba_def cell_operators_def
      cell_left_projection_def cell_defs np_defs)

lemma after_vectors:
  "np_imported (kernel_after (cell_vectors fresh_kernel))
   \<and> vars (kernel_after (cell_vectors fresh_kernel)) ''OB'' = None"
  by (simp add: cell_vectors_def cell_defs)

section \<open>The cells depend on the kernel's namespace\<close>

text \<open>
  Claim C5, as it holds of the cells. The code cells are not independent: they share the
  kernel's global namespace. The left-projection cell reads \<open>np\<close>, \<open>a\<close>, \<open>b\<close>, \<open>OA\<close> and \<open>OB\<close>, which
  earlier cells bind, and the right-projection cell reads \<open>np\<close>, \<open>a\<close>, \<open>b\<close>, \<open>alpha\<close>,
  \<open>beta\<close>, \<open>OA\<close> and \<open>OB\<close>. What such a cell raises and prints depends only on these
  entries: it is the same on any two kernels that agree on them. The cell completes without
  an exception only if all of them are bound, and the left-projection cell raises
  NameError for \<open>OB\<close> on a kernel where \<open>np\<close> is imported and \<open>OB\<close> is not bound.
\<close>

theorem cells_depend_on_namespace:
  "(agree_on {''a'', ''b'', ''OA'', ''OB''} k k' \<longrightarrow>
      raised (cell_left_projection k) = raised (cell_left_projection k')
      \<and> printed (cell_left_projection k) = printed (cell_left_projection k'))
   \<and> (agree_on {''a'', ''b'', ''alpha'', ''beta'', ''OA'', ''OB''} k k' \<longrightarrow>
      raised (cell_right_projection k) = raised (cell_right_projection k')
      \<and> printed (cell_right_projection k) = printed (cell_right_projection k'))
   \<and> (raised (cell_left_projection k) = None \<longrightarrow>
      np_imported k \<and> vars k ''a'' \<noteq> None \<and> vars k ''b'' \<noteq> None
      \<and> vars k ''OA'' \<noteq> None \<and> vars k ''OB'' \<noteq> None)
   \<and> (raised (cell_right_projection k) = None \<longrightarrow>
      np_imported k \<and> vars k ''a'' \<noteq> None \<and> vars k ''b'' \<noteq> None
      \<and> vars k ''alpha'' \<noteq> None \<and> vars k ''beta'' \<noteq> None
      \<and> vars k ''OA'' \<noteq> None \<and> vars k ''OB'' \<noteq> None)
   \<and> (np_imported k \<and> vars k ''OB'' = None \<longrightarrow>
      raised (cell_left_projection k) = Some (NameError ''OB''))"
proof -
  have l: "raised (cell_left_projection k) = raised (cell_left_projection k')
      \<and> printed (cell_left_projection k) = printed (cell_left_projection k')"
    if "agree_on {''a'', ''b'', ''OA'', ''OB''} k k'"
    using left_projection_reads that unfolding stmt_reads_def by blast
  have r: "raised (cell_right_projection k) = raised (cell_right_projection k')
      \<and> printed (cell_right_projection k) = printed (cell_right_projection k')"
    if "agree_on {''a'', ''b'', ''alpha'', ''beta'', ''OA'', ''OB''} k k'"
    using right_projection_reads that unfolding stmt_reads_def by blast
  show ?thesis
    using l r left_needs[of k] right_needs[of k] left_no_OB[of k] by blast
qed

theorem cells_depend_on_namespace_witness:
  "agree_on {''a'', ''b'', ''OA'', ''OB''}
     (kernel_after (then_run (cell_vectors fresh_kernel) cell_operators))
     (kernel_after (then_run (then_run (cell_vectors fresh_kernel) cell_kron_ba) cell_operators))
   \<and> printed (then_run (then_run (then_run (cell_vectors fresh_kernel) cell_kron_ba) cell_operators)
        cell_left_projection) =
      [[OStr ''LHS1: '', OArr (Vec [Complex 9 3, Complex 24 8, Complex 3 1])],
       [OStr ''RHS1: '', OArr (Vec [Complex 9 3, Complex 24 8, Complex 3 1])],
       [OStr ''Shape of the <alpha| x O_B matrix is'', OShape [3, 6]],
       [OStr ''LHS2: '', OArr (Vec [Complex (- 8) 19, Complex (- 13) (- 1)])],
       [OStr ''RHS2: '', OArr (Vec [Complex (- 8) 19, Complex (- 13) (- 1)])],
       [OStr ''Shape of the O_A x <beta| matrix is'', OShape [2, 6]]]
   \<and> agree_on {''a'', ''b'', ''alpha'', ''beta'', ''OA'', ''OB''}
     (kernel_after (then_run (then_run (cell_vectors fresh_kernel) cell_operators) cell_left_projection))
     (kernel_after (then_run (then_run (then_run (cell_vectors fresh_kernel) cell_kron_ba) cell_operators)
        cell_left_projection))
   \<and> printed (then_run (then_run (then_run (then_run (cell_vectors fresh_kernel) cell_kron_ba)
        cell_operators) cell_left_projection) cell_right_projection) =
      [[OStr ''LHS1: '', OArr (Vec [Complex 5 5, Complex 18 (- 6), Complex 1 13])],
       [OStr ''RHS1: '', OArr (Vec [Complex 5 5, Complex 18 (- 6), Complex 1 13])],
       [OStr ''LHS2: '', OArr (Vec [Complex (- 3) (- 22), Complex (- 6) (- 10)])],
       [OStr ''RHS2: '', OArr (Vec [Complex (- 3) (- 22), Complex (- 6) (- 10)])]]
   \<and> raised (then_run (then_run (cell_vectors fresh_kernel) cell_operators) cell_left_projection) = None
   \<and> vars (kernel_after (then_run (cell_vectors fresh_kernel) cell_operators)) ''OA'' \<noteq> None
   \<and> raised (then_run (then_run (then_run (cell_vectors fresh_kernel) cell_operators)
        cell_left_projection) cell_right_projection) = None
   \<and> vars (kernel_after (then_run (then_run (cell_vectors fresh_kernel) cell_operators)
        cell_left_projection)) ''beta'' \<noteq> None
   \<and> np_imported (kernel_after (cell_vectors fresh_kernel))
   \<and> vars (kernel_after (cell_vectors fresh_kernel)) ''OB'' = None
   \<and> raised (then_run (cell_vectors fresh_kernel) cell_left_projection) = Some (NameError ''OB'')"
  using
    cells_depend_on_namespace[of
      "kernel_after (then_run (cell_vectors fresh_kernel) cell_operators)"
      "kernel_after (then_run (then_run (cell_vectors fresh_kernel) cell_kron_ba) cell_operators)"]
    cells_depend_on_namespace[of
      "kernel_after (then_run (then_run (cell_vectors fresh_kernel) cell_operators) cell_left_projection)"
      "kernel_after (then_run (then_run (then_run (cell_vectors fresh_kernel) cell_kron_ba) cell_operators)
        cell_left_projection)"]
    cells_depend_on_namespace[of "kernel_after (cell_vectors fresh_kernel)" fresh_kernel]
    notebook_order_agrees notebook_order_agrees_after_left after_vectors
    left_projection_output right_projection_output
  unfolding then_run_def
  by metis

theorem cells_not_independent_counterexample:
  "raised (then_run (cell_vectors fresh_kernel) cell_left_projection) = Some (NameError ''OB'')
   \<and> raised (then_run (then_run (cell_vectors fresh_kernel) cell_operators) cell_left_projection) = None
   \<and> printed (then_run (cell_vectors fresh_kernel) cell_kron_ba) =
       [[OArr (Vec [2, - 1, 4, - 2, 6, - 3])]]
   \<and> printed (then_run (then_run (cell_vectors fresh_kernel) cell_operators) cell_kron_ba) =
       [[OArr (Vec [Complex 1 (- 2), 1, Complex 4 2, Complex 0 2, Complex 3 (- 1), Complex 1 1])]]"
proof -
  have a: "raised (then_run (cell_vectors fresh_kernel) cell_left_projection) = Some (NameError ''OB'')"
    using left_no_OB[of "kernel_after (cell_vectors fresh_kernel)"] after_vectors
    by (simp add: then_run_def)
  have b: "printed (then_run (cell_vectors fresh_kernel) cell_kron_ba) =
       [[OArr (Vec [2, - 1, 4, - 2, 6, - 3])]]"
    by (simp add: cell_vectors_def cell_kron_ba_def cell_defs np_defs)
  have c: "printed (then_run (then_run (cell_vectors fresh_kernel) cell_operators) cell_kron_ba) =
       [[OArr (Vec [Complex 1 (- 2), 1, Complex 4 2, Complex 0 2, Complex 3 (- 1), Complex 1 1])]]"
    by (simp add: cell_vectors_def cell_operators_def cell_kron_ba_def cell_defs np_defs
        complex_eq_iff)
  show ?thesis
    using a b c left_projection_output by simp
qed

end
